theory Spec2Isabelle
  imports Complex_Main "HOL-Library.Signed_Division" "HOL-Library.Log_Nat"
begin

section \<open>Modelling conventions\<close>

text \<open>
  The development embeds the transfer-fee engine of \<^verbatim>\<open>src/base/util.ts\<close>.

  \<^item> A \<^verbatim>\<open>BN\<close> (bn.js) and a \<^verbatim>\<open>bigint\<close> are unbounded integers: \<^typ>\<open>int\<close>.
  \<^item> A JavaScript \<^verbatim>\<open>number\<close> that is an input (a field of \<^verbatim>\<open>EpochInfo\<close>, a basis-point
    rate) is an integer-valued double and is modelled as \<^typ>\<open>int\<close>.
  \<^item> A \<^verbatim>\<open>number\<close> that the code computes is a value of the datatype \<open>number\<close>: a finite
    double, given by the rational it denotes, an infinity or NaN. \<^verbatim>\<open>Number(b)\<close> of a bigint
    and every arithmetic operation round to the nearest double, ties to even. The two
    zeros of IEEE arithmetic are one value, as they are for \<^verbatim>\<open>===\<close>.
  \<^item> \<^verbatim>\<open>new BN(n)\<close> of a number fails an assertion of bn.js unless \<open>|n| < 2^53\<close>.
  \<^item> \<^verbatim>\<open>undefined\<close> and \<^verbatim>\<open>null\<close> are \<^term>\<open>None\<close>.
  \<^item> An exception is a value: results are of type \<open>error + 'a\<close>.
\<close>

datatype error =
    AssertionError    \<comment> \<open>bn.js \<^verbatim>\<open>assert\<close>: a zero divisor in \<^verbatim>\<open>divmod\<close>, an unsafe number in \<^verbatim>\<open>new BN\<close>\<close>
  | TypeError         \<comment> \<open>property read on \<^verbatim>\<open>null\<close>\<close>
  | RpcError          \<comment> \<open>the connection rejected the request\<close>

section \<open>JavaScript numbers\<close>

datatype number = Finite rat | PosInfinity | NegInfinity | NaN

text \<open>\<open>pow2 k\<close> is \<open>2^k\<close> for an integer exponent.\<close>

definition pow2 :: "int \<Rightarrow> rat" where
  "pow2 k = (if 0 \<le> k then 2 ^ nat k else 1 / 2 ^ nat (- k))"

text \<open>
  \<open>ilog2 x\<close> is the floor of the binary logarithm of a positive rational: for \<open>x \<ge> 1\<close>
  it is that of the integer part, for \<open>x < 1\<close> the negated ceiling of the logarithm of
  \<open>1 / x\<close>.
\<close>

definition ilog2 :: "rat \<Rightarrow> int" where
  "ilog2 x = (if 1 \<le> x then bitlen \<lfloor>x\<rfloor> - 1 else - bitlen (\<lceil>1 / x\<rceil> - 1))"

definition roundHalfEven :: "rat \<Rightarrow> int" where
  "roundHalfEven x =
     (let f = \<lfloor>x\<rfloor>; r = x - of_int f
      in if r < 1 / 2 then f else if 1 / 2 < r then f + 1 else if even f then f else f + 1)"

text \<open>
  Rounding of a rational to the nearest binary64 value, ties to even: 53 significant bits,
  exponents from \<open>-1022\<close> (below it the spacing stays \<open>2^-1074\<close>), overflow to an infinity
  from \<open>2^1024\<close> on.
\<close>

definition toDouble :: "rat \<Rightarrow> number" where
  "toDouble x =
     (if x = 0 then Finite 0
      else let e = max (ilog2 \<bar>x\<bar>) (- 1022);
               ulp = pow2 (e - 52);
               y = of_int (roundHalfEven (x / ulp)) * ulp
           in if pow2 1024 \<le> y then PosInfinity
              else if y \<le> - pow2 1024 then NegInfinity
              else Finite y)"

text \<open>\<^verbatim>\<open>Number(b)\<close> for a bigint \<open>b\<close>.\<close>

definition NumberOfBigint :: "int \<Rightarrow> number" where
  "NumberOfBigint b = toDouble (of_int b)"

text \<open>
  The operators \<^verbatim>\<open>*\<close>, \<^verbatim>\<open>-\<close>, \<^verbatim>\<open>/\<close> and \<^verbatim>\<open><\<close> as the engine uses them: one operand is
  a finite number (a field of \<^verbatim>\<open>EpochInfo\<close> or a literal), given by its rational value; the
  divisor is a non-zero literal.
\<close>

fun number_times :: "number \<Rightarrow> rat \<Rightarrow> number" where
  "number_times (Finite a) b = toDouble (a * b)"
| "number_times PosInfinity b =
     (if b = 0 then NaN else if 0 < b then PosInfinity else NegInfinity)"
| "number_times NegInfinity b =
     (if b = 0 then NaN else if 0 < b then NegInfinity else PosInfinity)"
| "number_times NaN b = NaN"

fun number_minus :: "number \<Rightarrow> rat \<Rightarrow> number" where
  "number_minus (Finite a) b = toDouble (a - b)"
| "number_minus PosInfinity b = PosInfinity"
| "number_minus NegInfinity b = NegInfinity"
| "number_minus NaN b = NaN"

fun number_divide :: "number \<Rightarrow> rat \<Rightarrow> number" where
  "number_divide (Finite a) b = toDouble (a / b)"
| "number_divide PosInfinity b = (if 0 < b then PosInfinity else NegInfinity)"
| "number_divide NegInfinity b = (if 0 < b then NegInfinity else PosInfinity)"
| "number_divide NaN b = NaN"

fun number_less :: "rat \<Rightarrow> number \<Rightarrow> bool" where
  "number_less a (Finite b) = (a < b)"
| "number_less a PosInfinity = True"
| "number_less a NegInfinity = False"
| "number_less a NaN = False"

section \<open>Big integers\<close>

text \<open>
  \<^verbatim>\<open>new BN(n)\<close> for a number \<open>n\<close>: bn.js takes the absolute value and asserts that it is
  below \<open>2^53\<close>.
\<close>

definition newBN :: "int \<Rightarrow> error + int" where
  "newBN n = (if \<bar>n\<bar> < 2 ^ 53 then Inr n else Inl AssertionError)"

section \<open>Data model\<close>

type_synonym Buffer = "nat list"
type_synonym PublicKey = string

record Mint =
  mintAuthority :: "Buffer option"
  supply' :: int   \<comment> \<open>the field \<^verbatim>\<open>supply\<close>\<close>
  decimals :: int
  isInitialized :: bool
  freezeAuthority :: "Buffer option"

record TransferFee =
  epoch :: int
  maximumFee :: int
  transferFeeBasisPoints :: int

record TransferFeeConfig =
  transferFeeConfigAuthority :: "Buffer option"
  withdrawWithheldAuthority :: "Buffer option"
  withheldAmount :: int
  olderTransferFee :: TransferFee
  newerTransferFee :: TransferFee

text \<open>\<^verbatim>\<open>EpochInfo\<close> of the ledger client; only the three fields the engine reads, each an
  integer-valued double.\<close>

record EpochInfo =
  epoch :: int
  slotsInEpoch :: int
  absoluteSlot :: int

record GetTransferAmountFee =
  amount :: int
  fee :: "int option"
  expirationTime :: "number option"

record AccountInfo =
  data :: Buffer
  owner :: PublicKey

record ReturnTypeFetchMultipleMintInfo = Mint +
  feeConfig :: "TransferFeeConfig option"

section \<open>Ceiling division\<close>

text \<open>
  \<^verbatim>\<open>BN.divmod\<close> of bn.js: an assertion fails on a zero divisor; otherwise the quotient
  is truncated toward zero and the remainder takes the sign of the dividend.
\<close>

definition BN_divmod :: "int \<Rightarrow> int \<Rightarrow> error + (int \<times> int)" where
  "BN_divmod bn1 bn2 =
     (if bn2 = 0 then Inl AssertionError else Inr (bn1 sdiv bn2, bn1 smod bn2))"

text \<open>Modelled from the spec: the constant \<^verbatim>\<open>ZERO\<close> imported from \<^verbatim>\<open>../entity\<close>, the
  big integer zero.\<close>

definition ZERO :: int where
  "ZERO = 0"

definition BNDivCeil :: "int \<Rightarrow> int \<Rightarrow> error + int" where
  "BNDivCeil bn1 bn2 =
     (case BN_divmod bn1 bn2 of
        Inl e \<Rightarrow> Inl e
      | Inr (div', mod') \<Rightarrow> Inr (if mod' > ZERO then div' + 1 else div'))"

text \<open>
  The specification's \<^verbatim>\<open>ceilDiv\<close>, in its own words: \<^verbatim>\<open>floor(a/b) + 1\<close> if there is a
  nonzero remainder, else \<^verbatim>\<open>floor(a/b)\<close>. On \<^typ>\<open>int\<close>, \<open>div\<close> is the floor of the
  quotient and \<open>mod\<close> its remainder.
\<close>

definition ceilDiv :: "int \<Rightarrow> int \<Rightarrow> int" where
  "ceilDiv a b = (if a mod b \<noteq> 0 then a div b + 1 else a div b)"

section \<open>The fee engine\<close>

definition POINT :: int where
  "POINT = 10000"

text \<open>
  The local constants \<^verbatim>\<open>nowFeeConfig\<close> and \<^verbatim>\<open>expirationTime\<close> of
  \<^verbatim>\<open>getTransferAmountFee\<close>. Both compare \<^verbatim>\<open>epochInfo.epoch\<close> with
  \<^verbatim>\<open>Number(feeConfig.newerTransferFee.epoch)\<close>.
\<close>

definition nowFeeConfig :: "TransferFeeConfig \<Rightarrow> EpochInfo \<Rightarrow> TransferFee" where
  "nowFeeConfig feeCfg epochInfo =
     (if number_less (of_int (EpochInfo.epoch epochInfo))
           (NumberOfBigint (TransferFee.epoch (newerTransferFee feeCfg)))
      then olderTransferFee feeCfg else newerTransferFee feeCfg)"

definition expirationTimeOf :: "TransferFeeConfig \<Rightarrow> EpochInfo \<Rightarrow> number option" where
  "expirationTimeOf feeCfg epochInfo =
     (if number_less (of_int (EpochInfo.epoch epochInfo))
           (NumberOfBigint (TransferFee.epoch (newerTransferFee feeCfg)))
      then Some (number_divide
                  (number_times
                     (number_minus
                        (number_times (NumberOfBigint (TransferFee.epoch (newerTransferFee feeCfg)))
                           (of_int (slotsInEpoch epochInfo)))
                        (of_int (absoluteSlot epochInfo)))
                     400)
                  1000)
      else None)"

text \<open>
  \<^verbatim>\<open>POINT - transferFeeBasisPoints\<close> is a subtraction of numbers. It is exact when the
  difference is below \<open>2^53\<close> in absolute value; otherwise the rounded difference is at least
  \<open>2^53\<close> in absolute value as well, and \<^verbatim>\<open>new BN\<close> fails on either, so the model hands the
  exact difference to \<^const>\<open>newBN\<close>.
\<close>

definition getTransferAmountFee ::
  "int \<Rightarrow> TransferFeeConfig option \<Rightarrow> EpochInfo \<Rightarrow> bool \<Rightarrow> error + GetTransferAmountFee" where
  "getTransferAmountFee amt feeCfg epochInfo addFee =
     (case feeCfg of
        None \<Rightarrow> Inr \<lparr>amount = amt, fee = None, expirationTime = None\<rparr>
      | Some cfg \<Rightarrow>
          let now = nowFeeConfig cfg epochInfo;
              maxFee = maximumFee now;
              expiration = expirationTimeOf cfg epochInfo
          in if addFee then
               (if transferFeeBasisPoints now = POINT then
                  (let nowMaxFee = maximumFee now
                   in Inr \<lparr>amount = amt + nowMaxFee, fee = Some nowMaxFee,
                           expirationTime = expiration\<rparr>)
                else
                  (case newBN POINT of
                     Inl e \<Rightarrow> Inl e
                   | Inr point \<Rightarrow>
                  (case newBN (POINT - transferFeeBasisPoints now) of
                     Inl e \<Rightarrow> Inl e
                   | Inr rest \<Rightarrow>
                  (case BNDivCeil (amt * point) rest of
                     Inl e \<Rightarrow> Inl e
                   | Inr TAmount0 \<Rightarrow>
                       (let nowMaxFee = maximumFee now;
                            TAmount = (if TAmount0 - amt > nowMaxFee
                                       then amt + nowMaxFee else TAmount0)
                        in (case newBN (transferFeeBasisPoints now) of
                              Inl e \<Rightarrow> Inl e
                            | Inr basisPoints \<Rightarrow>
                           (case newBN POINT of
                              Inl e \<Rightarrow> Inl e
                            | Inr point' \<Rightarrow>
                           (case BNDivCeil (TAmount * basisPoints) point' of
                              Inl e \<Rightarrow> Inl e
                            | Inr fee0 \<Rightarrow>
                                (let fee1 = (if fee0 > maxFee then maxFee else fee0)
                                 in Inr \<lparr>amount = TAmount, fee = Some fee1,
                                         expirationTime = expiration\<rparr>)))))))))
             else
               (case newBN (transferFeeBasisPoints now) of
                  Inl e \<Rightarrow> Inl e
                | Inr basisPoints \<Rightarrow>
               (case newBN POINT of
                  Inl e \<Rightarrow> Inl e
                | Inr point \<Rightarrow>
               (case BNDivCeil (amt * basisPoints) point of
                  Inl e \<Rightarrow> Inl e
                | Inr fee0 \<Rightarrow>
                    (let fee1 = (if fee0 > maxFee then maxFee else fee0)
                     in Inr \<lparr>amount = amt, fee = Some fee1,
                             expirationTime = expiration\<rparr>)))))"

text \<open>\<^verbatim>\<open>minExpirationTime\<close> takes two optional finite numbers, each given by the rational it
  denotes; \<^verbatim>\<open>Math.min\<close> returns one of its arguments and rounds nothing.\<close>

definition minExpirationTime :: "rat option \<Rightarrow> rat option \<Rightarrow> rat option" where
  "minExpirationTime expirationTime1 expirationTime2 =
     (case expirationTime1 of
        None \<Rightarrow> expirationTime2
      | Some t1 \<Rightarrow>
          (case expirationTime2 of
             None \<Rightarrow> expirationTime1
           | Some t2 \<Rightarrow> Some (min t1 t2)))"

section \<open>The mint-fetching path\<close>

text \<open>\<^verbatim>\<open>unpackMint\<close> reads \<^verbatim>\<open>accountInfo.data\<close>, which throws on an absent account,
  and then returns a fixed record.\<close>

definition unpackMint :: "PublicKey \<Rightarrow> AccountInfo option \<Rightarrow> PublicKey option \<Rightarrow> error + Mint" where
  "unpackMint pubkey accountInfo ownerKey =
     (case accountInfo of
        None \<Rightarrow> Inl TypeError
      | Some info \<Rightarrow>
          (let data' = data info
           in Inr \<lparr>mintAuthority = None, supply' = 0, decimals = 0, isInitialized = True,
                   freezeAuthority = None\<rparr>))"

definition getTransferFeeConfig :: "Mint \<Rightarrow> TransferFeeConfig option" where
  "getTransferFeeConfig mint = None"

text \<open>
  The loop of \<^verbatim>\<open>fetchMultipleMintInfos\<close> over the fetched accounts: \<^verbatim>\<open>mintK\<close> is a
  JavaScript object keyed by the text of the public key, so a later entry replaces an
  earlier one with the same key. \<^verbatim>\<open>x ?? undefined\<close> maps \<^verbatim>\<open>null\<close> to \<^verbatim>\<open>undefined\<close>;
  both are \<^term>\<open>None\<close> here.
\<close>

fun fetchMultipleMintInfos_loop ::
  "(string \<rightharpoonup> ReturnTypeFetchMultipleMintInfo) \<Rightarrow> (PublicKey \<times> AccountInfo option) list
     \<Rightarrow> error + (string \<rightharpoonup> ReturnTypeFetchMultipleMintInfo)" where
  "fetchMultipleMintInfos_loop mintK [] = Inr mintK"
| "fetchMultipleMintInfos_loop mintK (i # rest) =
     (case unpackMint (fst i) (snd i) (map_option owner (snd i)) of
        Inl e \<Rightarrow> Inl e
      | Inr t \<Rightarrow>
          fetchMultipleMintInfos_loop
            (mintK(fst i \<mapsto>
               \<lparr>mintAuthority = mintAuthority t, supply' = supply' t, decimals = decimals t,
                isInitialized = isInitialized t, freezeAuthority = freezeAuthority t,
                feeConfig = (case getTransferFeeConfig t of None \<Rightarrow> None | Some c \<Rightarrow> Some c)\<rparr>))
            rest)"

text \<open>
  \<^verbatim>\<open>getMultipleAccountsInfoWithCustomFlags\<close> lives in \<^verbatim>\<open>../common\<close>; its answer for
  the requested keys is the parameter \<open>connection\<close>: a failure, or the list of keys with
  the account found for each (absent when the ledger has none).
\<close>

definition fetchMultipleMintInfos ::
  "(PublicKey list \<Rightarrow> error + (PublicKey \<times> AccountInfo option) list) \<Rightarrow> PublicKey list
     \<Rightarrow> error + (string \<rightharpoonup> ReturnTypeFetchMultipleMintInfo)" where
  "fetchMultipleMintInfos connection mints =
     (if length mints = 0 then Inr Map.empty
      else (case connection mints of
              Inl e \<Rightarrow> Inl e
            | Inr mintInfos \<Rightarrow> fetchMultipleMintInfos_loop Map.empty mintInfos))"

section \<open>Sample inputs\<close>

text \<open>
  A fee schedule whose older tier charges 100 basis points capped at 5000 and whose newer
  tier, active from epoch 3, charges 10000 basis points capped at 7; an epoch before the
  switch and one after it.
\<close>

abbreviation (input) sampleFeeConfig :: TransferFeeConfig where
  "sampleFeeConfig \<equiv>
     \<lparr>transferFeeConfigAuthority = None, withdrawWithheldAuthority = None, withheldAmount = 0,
      olderTransferFee = \<lparr>TransferFee.epoch = 0, maximumFee = 5000, transferFeeBasisPoints = 100\<rparr>,
      newerTransferFee = \<lparr>TransferFee.epoch = 3, maximumFee = 7, transferFeeBasisPoints = 10000\<rparr>\<rparr>"

abbreviation (input) epochOne :: EpochInfo where
  "epochOne \<equiv> \<lparr>EpochInfo.epoch = 1, slotsInEpoch = 432000, absoluteSlot = 500001\<rparr>"

abbreviation (input) epochThree :: EpochInfo where
  "epochThree \<equiv> \<lparr>EpochInfo.epoch = 3, slotsInEpoch = 432000, absoluteSlot = 1300000\<rparr>"

section \<open>Ceiling division: the code against the specification\<close>

text \<open>For a positive divisor \<^const>\<open>BNDivCeil\<close> never fails and computes the specification's
  \<^const>\<open>ceilDiv\<close>, whatever the sign of the dividend.\<close>

lemma BNDivCeil_pos:
  assumes "0 < b"
  shows "BNDivCeil a b = Inr (ceilDiv a b)"
proof -
  have nz: "b \<noteq> 0" using assms by simp
  have d: "a sdiv b = a div b + of_bool (sgn a \<noteq> sgn b \<and> \<not> b dvd a)"
    using nz by (simp add: signed_divide_int_eq_divide_int)
  have m: "a smod b = a mod b - b * of_bool (sgn a \<noteq> sgn b \<and> \<not> b dvd a)"
    by (simp add: signed_modulo_int_eq_modulo_int)
  have sb: "sgn b = 1" using assms by simp
  consider (dvd) "b dvd a" | (pos) "\<not> b dvd a" "0 < a" | (neg) "\<not> b dvd a" "a < 0"
    by (cases "a = 0"; cases "0 < a") auto
  then show ?thesis
  proof cases
    case dvd
    then have "a sdiv b = a div b" "a smod b = 0" "a mod b = 0"
      using d m by simp_all
    then show ?thesis
      using nz by (simp add: BNDivCeil_def BN_divmod_def ZERO_def ceilDiv_def)
  next
    case pos
    then have "a sdiv b = a div b" "a smod b = a mod b"
      using d m sb by simp_all
    moreover have "0 < a mod b"
      using pos(1) assms by (metis dvd_eq_mod_eq_0 pos_mod_sign order_le_less)
    ultimately show ?thesis
      using nz by (simp add: BNDivCeil_def BN_divmod_def ZERO_def ceilDiv_def)
  next
    case neg
    then have "a sdiv b = a div b + 1" "a smod b = a mod b - b"
      using d m sb by simp_all
    moreover have "a mod b < b" "a mod b \<noteq> 0"
      using neg(1) assms by (simp_all add: dvd_eq_mod_eq_0)
    ultimately show ?thesis
      using nz by (simp add: BNDivCeil_def BN_divmod_def ZERO_def ceilDiv_def)
  qed
qed

lemma ceilDiv_alt: "b \<noteq> 0 \<Longrightarrow> ceilDiv a b = - ((- a) div b)"
  by (simp add: ceilDiv_def zdiv_zminus1_eq_if)

text \<open>\<^const>\<open>ceilDiv\<close> is the quotient rounded toward positive infinity.\<close>

lemma ceilDiv_ceiling: "b \<noteq> 0 \<Longrightarrow> ceilDiv a b = \<lceil>real_of_int a / real_of_int b\<rceil>"
  by (simp add: ceilDiv_alt ceiling_divide_eq_div)

lemma ceilDiv_le_iff:
  assumes b: "0 < b"
  shows "ceilDiv a b \<le> k \<longleftrightarrow> a \<le> b * k"
proof -
  have "ceilDiv a b \<le> k \<longleftrightarrow> real_of_int a / real_of_int b \<le> real_of_int k"
    using b by (simp add: ceilDiv_ceiling ceiling_le_iff)
  also have "\<dots> \<longleftrightarrow> real_of_int a \<le> real_of_int k * real_of_int b"
    using b by (simp add: pos_divide_le_eq)
  also have "\<dots> \<longleftrightarrow> real_of_int a \<le> real_of_int (b * k)"
    by (simp add: mult.commute)
  also have "\<dots> \<longleftrightarrow> a \<le> b * k"
    by (rule of_int_le_iff)
  finally show ?thesis .
qed

lemma ceilDiv_ge: "0 < b \<Longrightarrow> a \<le> b * ceilDiv a b"
  using ceilDiv_le_iff [of b a "ceilDiv a b"] by simp

text \<open>
  C6. For every non-negative \<open>a\<close> and every positive \<open>b\<close>, \<^verbatim>\<open>BNDivCeil(a, b)\<close> returns
  \<open>floor(a/b) + 1\<close> when \<open>a mod b\<close> is nonzero and \<open>floor(a/b)\<close> otherwise; in particular
  \<^verbatim>\<open>BNDivCeil(10, 3) = 4\<close>, \<^verbatim>\<open>BNDivCeil(9, 3) = 3\<close> and \<^verbatim>\<open>BNDivCeil(0, 5) = 0\<close>.
\<close>

theorem BNDivCeil_exact:
  "(\<forall>a b. 0 \<le> a \<and> 0 < b \<longrightarrow>
       BNDivCeil a b = Inr (if a mod b \<noteq> 0 then a div b + 1 else a div b))
   \<and> BNDivCeil 10 3 = Inr 4 \<and> BNDivCeil 9 3 = Inr 3 \<and> BNDivCeil 0 5 = Inr 0"
proof -
  have general: "BNDivCeil a b = Inr (if a mod b \<noteq> 0 then a div b + 1 else a div b)"
    if "0 < b" for a b
    using BNDivCeil_pos [OF that, of a] by (simp add: ceilDiv_def)
  have "BNDivCeil 10 3 = Inr 4" "BNDivCeil 9 3 = Inr 3" "BNDivCeil 0 5 = Inr 0"
    by (simp_all add: general)
  then show ?thesis
    using general by simp
qed

theorem BNDivCeil_exact_witness:
  "(0::int) \<le> 7 \<and> (0::int) < 2 \<and> BNDivCeil 7 2 = Inr 4"
  using BNDivCeil_exact [THEN conjunct1, rule_format, of 7 2] by simp

section \<open>Rounding to doubles\<close>

lemma pow2_nonneg: "0 \<le> k \<Longrightarrow> pow2 k = 2 ^ nat k"
  by (simp add: pow2_def)

lemma pow2_nonpos: "0 \<le> k \<Longrightarrow> pow2 (- k) = 1 / 2 ^ nat k"
  by (cases "k = 0") (simp_all add: pow2_def)

lemma ilog2_of_int: "0 < n \<Longrightarrow> ilog2 (of_int n) = bitlen n - 1"
  by (simp add: ilog2_def)

lemma roundHalfEven_of_int: "roundHalfEven (of_int k) = k"
  by (simp add: roundHalfEven_def)

text \<open>\<^const>\<open>ilog2\<close> is the floor of the binary logarithm.\<close>

lemma ilog2_bounds:
  assumes "0 < x"
  shows "pow2 (ilog2 x) \<le> x \<and> x < pow2 (ilog2 x + 1)"
proof (cases "1 \<le> x")
  case True
  define f where "f = \<lfloor>x\<rfloor>"
  have f: "0 < f" using True by (simp add: f_def)
  have b: "1 \<le> bitlen f" using f by (simp add: bitlen_alt_def)
  from bitlen_bounds [OF f] have lo: "2 ^ nat (bitlen f - 1) \<le> f" and hi: "f < 2 ^ nat (bitlen f)"
    by simp_all
  have "pow2 (bitlen f - 1) = of_int (2 ^ nat (bitlen f - 1))"
    using b by (simp add: pow2_nonneg)
  also have "\<dots> \<le> of_int f" using lo by (simp only: of_int_le_iff)
  also have "\<dots> \<le> x" by (simp add: f_def)
  finally have 1: "pow2 (bitlen f - 1) \<le> x" .
  have "f + 1 \<le> 2 ^ nat (bitlen f)" using hi by simp
  then have "(of_int (f + 1) :: rat) \<le> of_int (2 ^ nat (bitlen f))"
    by (simp only: of_int_le_iff)
  moreover have "x < of_int (f + 1)" unfolding f_def using floor_correct [of x] by blast
  ultimately have "x < of_int (2 ^ nat (bitlen f))" by simp
  then have 2: "x < pow2 (bitlen f - 1 + 1)"
    using b by (simp add: pow2_nonneg)
  show ?thesis using True 1 2 by (simp add: ilog2_def f_def)
next
  case False
  define y where "y = 1 / x"
  define m where "m = \<lceil>y\<rceil> - 1"
  have y: "1 < y" using False assms by (simp add: y_def)
  have m: "0 < m" using y by (simp add: m_def less_ceiling_iff)
  have my: "of_int m < y" "y \<le> of_int (m + 1)"
    by (simp_all add: m_def ceiling_correct)
  have b: "1 \<le> bitlen m" using m by (simp add: bitlen_alt_def)
  from bitlen_bounds [OF m] have lo: "2 ^ nat (bitlen m - 1) \<le> m" and hi: "m < 2 ^ nat (bitlen m)"
    by simp_all
  have "m + 1 \<le> 2 ^ nat (bitlen m)" using hi by simp
  then have "(of_int (m + 1) :: rat) \<le> of_int (2 ^ nat (bitlen m))"
    by (simp only: of_int_le_iff)
  then have "y \<le> 2 ^ nat (bitlen m)" using my(2) by simp
  then have "1 / 2 ^ nat (bitlen m) \<le> 1 / y"
    using y by (simp add: frac_le)
  then have 1: "pow2 (- bitlen m) \<le> x"
    using b assms by (simp add: pow2_nonpos y_def)
  have "(of_int (2 ^ nat (bitlen m - 1)) :: rat) \<le> of_int m"
    using lo by (simp only: of_int_le_iff)
  then have "(2::rat) ^ nat (bitlen m - 1) \<le> of_int m" by simp
  then have "2 ^ nat (bitlen m - 1) < y" using my(1) by (rule le_less_trans)
  then have "1 / y < 1 / 2 ^ nat (bitlen m - 1)"
    by (simp add: frac_less2)
  moreover have "pow2 (- bitlen m + 1) = 1 / 2 ^ nat (bitlen m - 1)"
    using b pow2_nonpos [of "bitlen m - 1"] by simp
  ultimately have 2: "x < pow2 (- bitlen m + 1)"
    using assms by (simp add: y_def)
  show ?thesis using False 1 2 by (simp add: ilog2_def m_def y_def)
qed

text \<open>An integer below \<open>2^53\<close> in absolute value is a double: rounding leaves it as it is.\<close>

lemma toDouble_exact:
  assumes "\<bar>n\<bar> < 2 ^ 53"
  shows "toDouble (of_int n) = Finite (of_int n)"
proof (cases "n = 0")
  case True
  then show ?thesis by (simp add: toDouble_def)
next
  case False
  define a where "a = \<bar>n\<bar>"
  have a: "0 < a" "a < 2 ^ 53" using False assms by (simp_all add: a_def)
  have abs: "\<bar>of_int n :: rat\<bar> = of_int a" by (simp add: a_def)
  have b1: "1 \<le> bitlen a" using a(1) by (simp add: bitlen_alt_def)
  have b2: "bitlen a \<le> 53" using a(2) by (simp add: bitlen_le_iff_power)
  define e where "e = bitlen a - 1"
  have e: "0 \<le> e" "e \<le> 52" using b1 b2 by (simp_all add: e_def)
  have il: "ilog2 \<bar>of_int n :: rat\<bar> = e"
    using a(1) by (simp add: abs ilog2_of_int e_def)
  have mx: "max e (- 1022) = e" using e by simp
  define k where "k = nat (52 - e)"
  have ulp: "pow2 (e - 52) = 1 / 2 ^ k"
    using pow2_nonpos [of "52 - e"] e by (simp add: k_def)
  have q: "of_int n / pow2 (e - 52) = (of_int (n * 2 ^ k) :: rat)"
    by (simp add: ulp)
  have r: "roundHalfEven (of_int n / pow2 (e - 52)) = n * 2 ^ k"
    unfolding q by (rule roundHalfEven_of_int)
  have y: "of_int (n * 2 ^ k) * pow2 (e - 52) = (of_int n :: rat)"
    by (simp add: ulp)
  have "(of_int a :: rat) < of_int (2 ^ 53)" using a(2) by (simp only: of_int_less_iff)
  moreover have "(2::rat) ^ 53 \<le> 2 ^ 1024" by (rule power_increasing) simp_all
  ultimately have "\<bar>of_int n :: rat\<bar> < 2 ^ 1024" by (simp add: abs)
  then have big: "\<not> pow2 1024 \<le> of_int n" "\<not> (of_int n :: rat) \<le> - pow2 1024"
    by (simp_all add: pow2_def abs_less_iff)
  show ?thesis
    using False big by (simp add: toDouble_def il mx r y Let_def del: of_int_mult of_int_power)
qed

lemma toDouble_numeral:
  "numeral k < (2::int) ^ 53 \<Longrightarrow> toDouble (numeral k) = Finite (numeral k)"
  using toDouble_exact [of "numeral k"] by simp

lemma toDouble_one: "toDouble 1 = Finite 1"
  using toDouble_exact [of 1] by simp

lemma NumberOfBigint_exact: "\<bar>b\<bar> < 2 ^ 53 \<Longrightarrow> NumberOfBigint b = Finite (of_int b)"
  by (simp add: NumberOfBigint_def toDouble_exact)

text \<open>A rounding is computed from the exponent and the rounded significand.\<close>

lemma toDouble_finite:
  assumes "x \<noteq> 0" and "ilog2 \<bar>x\<bar> = e" and "- 1022 \<le> e"
    and "roundHalfEven (x / pow2 (e - 52)) = m"
    and "\<bar>of_int m * pow2 (e - 52)\<bar> < 2 ^ 64"
  shows "toDouble x = Finite (of_int m * pow2 (e - 52))"
proof -
  have mx: "max e (- 1022) = e" using assms(3) by simp
  have "(2::rat) ^ 64 \<le> 2 ^ 1024" by (rule power_increasing) simp_all
  with assms(5) have "\<bar>of_int m * pow2 (e - 52)\<bar> < 2 ^ 1024" by simp
  then have big: "\<not> pow2 1024 \<le> of_int m * pow2 (e - 52)"
    "\<not> of_int m * pow2 (e - 52) \<le> - pow2 1024"
    by (simp_all add: pow2_def abs_less_iff)
  show ?thesis
    using assms(1) big by (simp add: toDouble_def assms(2) mx assms(4) Let_def)
qed

lemma floor_rat_numeral: "\<lfloor>(numeral a :: rat) / numeral b\<rfloor> = numeral a div numeral b"
  using floor_divide_of_int_eq [of "numeral a" "numeral b", where ?'a = rat] by simp

lemma bitlen_example: "bitlen 9007199254740993 = 54"
  by code_simp

text \<open>\<open>2^53 + 1\<close> lies halfway between two doubles and rounds to the even one, \<open>2^53\<close>.\<close>

lemma toDouble_two_to_53_plus_1: "toDouble 9007199254740993 = Finite 9007199254740992"
proof -
  have i: "ilog2 \<bar>9007199254740993\<bar> = 53"
    by (simp add: ilog2_def bitlen_example)
  have r: "roundHalfEven (9007199254740993 / pow2 (53 - 52)) = 4503599627370496"
    by (simp add: roundHalfEven_def pow2_def Let_def floor_rat_numeral)
  have "toDouble 9007199254740993 = Finite (of_int 4503599627370496 * pow2 (53 - 52))"
    by (rule toDouble_finite [OF _ i _ r]) (simp_all add: pow2_def)
  then show ?thesis by (simp add: pow2_def)
qed

lemma ilog2_two_fifths: "ilog2 (2 / 5) = - 2"
  by code_simp

text \<open>The double nearest to \<open>0.4\<close>.\<close>

lemma toDouble_two_fifths: "toDouble (2 / 5) = Finite (3602879701896397 / 9007199254740992)"
proof -
  have i: "ilog2 \<bar>2 / 5\<bar> = - 2"
    by (simp add: ilog2_two_fifths)
  have r: "roundHalfEven ((2 / 5) / pow2 (- 2 - 52)) = 7205759403792794"
    by (simp add: roundHalfEven_def pow2_def Let_def floor_rat_numeral)
  have "toDouble (2 / 5) = Finite (of_int 7205759403792794 * pow2 (- 2 - 52))"
    by (rule toDouble_finite [OF _ i _ r]) (simp_all add: pow2_def)
  then show ?thesis by (simp add: pow2_def)
qed

section \<open>Tier selection and expiration in the safe range\<close>

text \<open>When the epoch of the newer tier is below \<open>2^53\<close> in absolute value,
  \<^verbatim>\<open>Number\<close> does not round it and the comparison is that of the integers.\<close>

lemma nowFeeConfig_exact:
  assumes "\<bar>TransferFee.epoch (newerTransferFee cfg)\<bar> < 2 ^ 53"
  shows "nowFeeConfig cfg ei =
           (if EpochInfo.epoch ei < TransferFee.epoch (newerTransferFee cfg)
            then olderTransferFee cfg else newerTransferFee cfg)"
  using assms by (simp add: nowFeeConfig_def NumberOfBigint_exact)

lemma expirationTimeOf_exact:
  assumes "\<bar>TransferFee.epoch (newerTransferFee cfg)\<bar> < 2 ^ 53"
  shows "expirationTimeOf cfg ei =
           (if EpochInfo.epoch ei < TransferFee.epoch (newerTransferFee cfg)
            then Some (number_divide
                        (number_times
                           (number_minus
                              (number_times (Finite (of_int (TransferFee.epoch (newerTransferFee cfg))))
                                 (of_int (slotsInEpoch ei)))
                              (of_int (absoluteSlot ei)))
                           400)
                        1000)
            else None)"
  using assms by (simp add: expirationTimeOf_def NumberOfBigint_exact)

lemma same_tiers:
  "nowFeeConfig
     \<lparr>transferFeeConfigAuthority = a, withdrawWithheldAuthority = w, withheldAmount = h,
      olderTransferFee = t, newerTransferFee = t\<rparr> ei = t"
  by (simp add: nowFeeConfig_def)

lemma sample_epochOne:
  "nowFeeConfig sampleFeeConfig epochOne
     = \<lparr>TransferFee.epoch = 0, maximumFee = 5000, transferFeeBasisPoints = 100\<rparr>"
  by (simp add: nowFeeConfig_exact)

lemma sample_epochThree:
  "nowFeeConfig sampleFeeConfig epochThree
     = \<lparr>TransferFee.epoch = 3, maximumFee = 7, transferFeeBasisPoints = 10000\<rparr>"
  by (simp add: nowFeeConfig_exact)

text \<open>
  When the integers \<open>newerEpoch * slotsInEpoch\<close>, that product less \<open>absoluteSlot\<close>, and the
  difference times 400 all stay below \<open>2^53\<close> in absolute value, only the final division
  rounds: the expiration time is the double nearest to the exact quotient.
\<close>

lemma expiration_in_safe_range:
  assumes "\<bar>e * s\<bar> < 2 ^ 53" and "\<bar>e * s - a\<bar> < 2 ^ 53" and "\<bar>(e * s - a) * 400\<bar> < 2 ^ 53"
  shows "number_divide
           (number_times (number_minus (number_times (Finite (of_int e)) (of_int s)) (of_int a)) 400)
           1000
         = toDouble (of_int ((e * s - a) * 400) / 1000)"
proof -
  have 1: "number_times (Finite (of_int e)) (of_int s) = Finite (of_int (e * s))"
    using toDouble_exact [OF assms(1)] by simp
  have 2: "number_minus (Finite (of_int (e * s))) (of_int a) = Finite (of_int (e * s - a))"
    using toDouble_exact [OF assms(2)] by simp
  have 3: "number_times (Finite (of_int (e * s - a))) 400 = Finite (of_int ((e * s - a) * 400))"
    using toDouble_exact [OF assms(3)] by simp
  show ?thesis
    unfolding 1 2 3 by simp
qed

section \<open>The fee engine without a fee configuration\<close>

text \<open>
  C7. For every amount, every epochInfo and both values of \<^verbatim>\<open>addFee\<close>,
  \<^verbatim>\<open>getTransferAmountFee\<close> with \<^verbatim>\<open>feeConfig\<close> absent returns the input amount unchanged,
  an absent fee and an absent expiration time.
\<close>

theorem getTransferAmountFee_no_config:
  "getTransferAmountFee amt None epochInfo addFee
     = Inr \<lparr>amount = amt, fee = None, expirationTime = None\<rparr>"
  by (simp add: getTransferAmountFee_def)

section \<open>Closed forms of the fee engine\<close>

lemma newBN_safe: "\<bar>n\<bar> < 2 ^ 53 \<Longrightarrow> newBN n = Inr n"
  by (simp add: newBN_def)

lemma newBN_POINT: "newBN POINT = Inr POINT"
  by (simp add: newBN_def POINT_def)

text \<open>Fee-only mode converts the rate with \<^verbatim>\<open>new BN\<close> and divides by the positive constant
  \<^const>\<open>POINT\<close>, so for a rate below \<open>2^53\<close> in absolute value the code's quotient is the
  specification's \<^const>\<open>ceilDiv\<close>.\<close>

lemma fee_only_eq:
  assumes "\<bar>transferFeeBasisPoints (nowFeeConfig cfg ei)\<bar> < 2 ^ 53"
  shows "getTransferAmountFee amt (Some cfg) ei False =
     Inr \<lparr>amount = amt,
          fee = Some (min (ceilDiv (amt * transferFeeBasisPoints (nowFeeConfig cfg ei)) 10000)
                          (maximumFee (nowFeeConfig cfg ei))),
          expirationTime = expirationTimeOf cfg ei\<rparr>"
  using assms
  by (simp add: getTransferAmountFee_def Let_def newBN_safe newBN_POINT)
    (simp add: POINT_def BNDivCeil_pos min_def)

text \<open>Gross-up at the full rate converts no number and skips the division.\<close>

lemma gross_up_full_eq:
  "transferFeeBasisPoints (nowFeeConfig cfg ei) = 10000 \<Longrightarrow>
   getTransferAmountFee amt (Some cfg) ei True =
     Inr \<lparr>amount = amt + maximumFee (nowFeeConfig cfg ei),
          fee = Some (maximumFee (nowFeeConfig cfg ei)),
          expirationTime = expirationTimeOf cfg ei\<rparr>"
  by (simp add: getTransferAmountFee_def Let_def POINT_def)

text \<open>Gross-up below the full rate divides by the positive \<open>10000 - basisPoints\<close>, which
  \<^verbatim>\<open>new BN\<close> accepts when it is below \<open>2^53\<close>.\<close>

lemma gross_up_eq:
  assumes "transferFeeBasisPoints (nowFeeConfig cfg ei) < 10000"
    and "10000 - transferFeeBasisPoints (nowFeeConfig cfg ei) < 2 ^ 53"
  shows "getTransferAmountFee amt (Some cfg) ei True =
     (let bp = transferFeeBasisPoints (nowFeeConfig cfg ei);
          maxFee = maximumFee (nowFeeConfig cfg ei);
          TAmount0 = ceilDiv (amt * 10000) (10000 - bp);
          TAmount = (if TAmount0 - amt > maxFee then amt + maxFee else TAmount0)
      in Inr \<lparr>amount = TAmount,
              fee = Some (min (ceilDiv (TAmount * bp) 10000) maxFee),
              expirationTime = expirationTimeOf cfg ei\<rparr>)"
proof -
  have pos: "0 < 10000 - transferFeeBasisPoints (nowFeeConfig cfg ei)"
    using assms by simp
  have n1: "newBN (10000 - transferFeeBasisPoints (nowFeeConfig cfg ei))
              = Inr (10000 - transferFeeBasisPoints (nowFeeConfig cfg ei))"
    using assms by (simp add: newBN_def)
  have n2: "newBN (transferFeeBasisPoints (nowFeeConfig cfg ei))
              = Inr (transferFeeBasisPoints (nowFeeConfig cfg ei))"
    using assms by (simp add: newBN_def)
  have n3: "newBN 10000 = Inr 10000"
    by (simp add: newBN_def)
  show ?thesis
    using assms(1)
    by (simp add: getTransferAmountFee_def Let_def POINT_def n1 n2 n3 BNDivCeil_pos [OF pos]
        BNDivCeil_pos [of 10000] min_def)
qed

text \<open>Gross-up at any other rate that \<^verbatim>\<open>new BN\<close> accepts, in terms of the code's own
  \<^const>\<open>BNDivCeil\<close>.\<close>

lemma gross_up_code:
  assumes "transferFeeBasisPoints (nowFeeConfig cfg ei) \<noteq> 10000"
    and "\<bar>transferFeeBasisPoints (nowFeeConfig cfg ei)\<bar> < 2 ^ 53"
    and "\<bar>10000 - transferFeeBasisPoints (nowFeeConfig cfg ei)\<bar> < 2 ^ 53"
  shows "\<exists>t0 q.
           BNDivCeil (amt * 10000) (10000 - transferFeeBasisPoints (nowFeeConfig cfg ei)) = Inr t0
         \<and> BNDivCeil ((if t0 - amt > maximumFee (nowFeeConfig cfg ei)
                        then amt + maximumFee (nowFeeConfig cfg ei) else t0)
                       * transferFeeBasisPoints (nowFeeConfig cfg ei)) 10000 = Inr q
         \<and> getTransferAmountFee amt (Some cfg) ei True
             = Inr \<lparr>amount = (if t0 - amt > maximumFee (nowFeeConfig cfg ei)
                               then amt + maximumFee (nowFeeConfig cfg ei) else t0),
                     fee = Some (min q (maximumFee (nowFeeConfig cfg ei))),
                     expirationTime = expirationTimeOf cfg ei\<rparr>"
proof -
  define bp where "bp = transferFeeBasisPoints (nowFeeConfig cfg ei)"
  define maxFee where "maxFee = maximumFee (nowFeeConfig cfg ei)"
  have "10000 - bp \<noteq> 0"
    using assms(1) by (simp add: bp_def)
  then obtain t0 where t0: "BNDivCeil (amt * 10000) (10000 - bp) = Inr t0"
    by (auto simp add: BNDivCeil_def BN_divmod_def)
  define T where "T = (if t0 - amt > maxFee then amt + maxFee else t0)"
  have q: "BNDivCeil (T * bp) 10000 = Inr (ceilDiv (T * bp) 10000)"
    by (rule BNDivCeil_pos) simp
  have n1: "newBN (10000 - bp) = Inr (10000 - bp)"
    using assms(3) by (simp add: newBN_def bp_def)
  have n2: "newBN bp = Inr bp"
    using assms(2) by (simp add: newBN_def bp_def)
  have n3: "newBN 10000 = Inr 10000"
    by (simp add: newBN_def)
  have "getTransferAmountFee amt (Some cfg) ei True
          = Inr \<lparr>amount = T, fee = Some (min (ceilDiv (T * bp) 10000) maxFee),
                  expirationTime = expirationTimeOf cfg ei\<rparr>"
    using assms(1) t0 q
    by (simp add: getTransferAmountFee_def Let_def POINT_def bp_def [symmetric]
        maxFee_def [symmetric] T_def [symmetric] n1 n2 n3 min_def)
  with t0 q show ?thesis
    unfolding T_def bp_def maxFee_def by blast
qed

section \<open>Fee-only mode\<close>

text \<open>
  C1, as stated for every present feeConfig, fails on a rate that \<^verbatim>\<open>new BN\<close> rejects. With
  \<open>2^53\<close> basis points (or \<open>-2^53\<close>), a cap of 5 and the amount 1, the claim gives the fee
  \<open>min(ceilDiv(1 * 2^53, 10000), 5) = 5\<close>; the code evaluates \<^verbatim>\<open>new BN(basisPoints)\<close>, whose
  assertion \<open>|number| < 2^53\<close> fails, and throws.
\<close>

theorem fee_only_counterexample:
  "(0::int) \<le> 1
   \<and> getTransferAmountFee 1
        (Some \<lparr>transferFeeConfigAuthority = None, withdrawWithheldAuthority = None,
               withheldAmount = 0,
               olderTransferFee = \<lparr>TransferFee.epoch = 0, maximumFee = 5, transferFeeBasisPoints = 9007199254740992\<rparr>,
               newerTransferFee = \<lparr>TransferFee.epoch = 0, maximumFee = 5, transferFeeBasisPoints = 9007199254740992\<rparr>\<rparr>)
        \<lparr>EpochInfo.epoch = 1, slotsInEpoch = 432000, absoluteSlot = 500001\<rparr> False
      = Inl AssertionError
   \<and> getTransferAmountFee 1
        (Some \<lparr>transferFeeConfigAuthority = None, withdrawWithheldAuthority = None,
               withheldAmount = 0,
               olderTransferFee = \<lparr>TransferFee.epoch = 0, maximumFee = 5, transferFeeBasisPoints = - 9007199254740992\<rparr>,
               newerTransferFee = \<lparr>TransferFee.epoch = 0, maximumFee = 5, transferFeeBasisPoints = - 9007199254740992\<rparr>\<rparr>)
        \<lparr>EpochInfo.epoch = 1, slotsInEpoch = 432000, absoluteSlot = 500001\<rparr> False
      = Inl AssertionError
   \<and> min (ceilDiv (1 * 9007199254740992) 10000) 5 = (5::int)"
proof -
  have stated: "min (ceilDiv (1 * 9007199254740992) 10000) 5 = (5::int)"
    by (simp add: ceilDiv_def)
  then show ?thesis
    by (simp add: getTransferAmountFee_def same_tiers Let_def newBN_def)
qed

text \<open>
  C1, amended. For every non-negative amount, every present feeConfig whose selected tier
  has \<open>|basisPoints| < 2^53\<close> and every epochInfo, \<^verbatim>\<open>getTransferAmountFee\<close> with
  \<^verbatim>\<open>addFee = false\<close> returns the input amount unchanged and the fee
  \<open>min(ceilDiv(amount * basisPoints, 10000), maximumFee)\<close>, where basisPoints and maximumFee
  are those of the tier selected for epochInfo; in particular the fee is at most maximumFee,
  and it equals \<open>ceilDiv(amount * basisPoints, 10000)\<close> whenever that value is at most
  maximumFee.
\<close>

theorem fee_only_mode:
  assumes "0 \<le> amt"
    and "\<bar>transferFeeBasisPoints (nowFeeConfig cfg ei)\<bar> < 2 ^ 53"
  shows "\<exists>r f. getTransferAmountFee amt (Some cfg) ei False = Inr r
           \<and> amount r = amt
           \<and> fee r = Some f
           \<and> f = min (ceilDiv (amt * transferFeeBasisPoints (nowFeeConfig cfg ei)) 10000)
                     (maximumFee (nowFeeConfig cfg ei))
           \<and> f \<le> maximumFee (nowFeeConfig cfg ei)
           \<and> (ceilDiv (amt * transferFeeBasisPoints (nowFeeConfig cfg ei)) 10000
                  \<le> maximumFee (nowFeeConfig cfg ei)
                \<longrightarrow> f = ceilDiv (amt * transferFeeBasisPoints (nowFeeConfig cfg ei)) 10000)"
  using assms(2) by (simp add: fee_only_eq)

theorem fee_only_mode_witness:
  "(0::int) \<le> 100000
   \<and> \<bar>transferFeeBasisPoints (nowFeeConfig sampleFeeConfig epochOne)\<bar> < 2 ^ 53
   \<and> (\<exists>r. getTransferAmountFee 100000 (Some sampleFeeConfig) epochOne False = Inr r
          \<and> amount r = 100000 \<and> fee r = Some 1000)"
proof -
  have h1: "(0::int) \<le> 100000" by simp
  have h2: "\<bar>transferFeeBasisPoints (nowFeeConfig sampleFeeConfig epochOne)\<bar> < 2 ^ 53"
    by (simp add: sample_epochOne)
  have c: "ceilDiv 10000000 10000 = 1000"
    by (simp add: ceilDiv_def)
  from fee_only_mode [OF h1 h2] obtain r
    where "getTransferAmountFee 100000 (Some sampleFeeConfig) epochOne False = Inr r"
      and "amount r = 100000" and "fee r = Some 1000"
    unfolding sample_epochOne by (auto simp add: c)
  with h1 h2 show ?thesis by blast
qed

section \<open>Gross-up mode\<close>

text \<open>
  C4. For every non-negative amount, every present feeConfig whose selected tier has
  \<open>basisPoints = 10000\<close> and every epochInfo, \<^verbatim>\<open>getTransferAmountFee\<close> with
  \<^verbatim>\<open>addFee = true\<close> returns the gross amount \<open>amount + maximumFee\<close> and the fee
  \<open>maximumFee\<close>.
\<close>

theorem gross_up_full_rate:
  assumes "0 \<le> amt" and "transferFeeBasisPoints (nowFeeConfig cfg ei) = 10000"
  shows "\<exists>r. getTransferAmountFee amt (Some cfg) ei True = Inr r
           \<and> amount r = amt + maximumFee (nowFeeConfig cfg ei)
           \<and> fee r = Some (maximumFee (nowFeeConfig cfg ei))"
  using assms(2) by (simp add: gross_up_full_eq)

theorem gross_up_full_rate_witness:
  "(0::int) \<le> 1000000
   \<and> transferFeeBasisPoints (nowFeeConfig sampleFeeConfig epochThree) = 10000
   \<and> (\<exists>r. getTransferAmountFee 1000000 (Some sampleFeeConfig) epochThree True = Inr r
          \<and> amount r = 1000007 \<and> fee r = Some 7)"
  using gross_up_full_rate [of 1000000 sampleFeeConfig epochThree]
  by (auto simp add: sample_epochThree)

text \<open>
  C2, as stated for every rate other than 10000, fails on both sides of the range in which
  the divisor \<open>10000 - basisPoints\<close> is positive and accepted by \<^verbatim>\<open>new BN\<close>.

  Above 10000: with 30000 basis points, a cap of 5 and the amount 1, the divisor is
  negative. \<^verbatim>\<open>divmod\<close> truncates \<open>10000 / -20000\<close> to quotient 0 with remainder 10000, the
  positive remainder makes \<^verbatim>\<open>BNDivCeil\<close> add one, and the code returns the gross amount 1
  and the fee 3. The quotient rounded toward positive infinity is
  \<open>ceilDiv(10000, -20000) = 0\<close>, which is not above the cap, so the stated formula gives the
  gross amount 0 and the fee \<open>min(ceilDiv(0 * 30000, 10000), 5) = 0\<close>.

  Far below: with \<open>10000 - 2^53\<close> basis points the divisor is \<open>2^53\<close>, the assertion of
  \<^verbatim>\<open>new BN(POINT - basisPoints)\<close> fails and the code throws.

  The theorem gives, for each input, the hypotheses of the claim and the result of the
  code, and for the first the pair of gross amount and fee that the claim states.
\<close>

theorem gross_up_counterexample:
  "(0::int) \<le> 1
   \<and> transferFeeBasisPoints
        (nowFeeConfig
           \<lparr>transferFeeConfigAuthority = None, withdrawWithheldAuthority = None,
               withheldAmount = 0,
               olderTransferFee = \<lparr>TransferFee.epoch = 0, maximumFee = 5, transferFeeBasisPoints = 30000\<rparr>,
               newerTransferFee = \<lparr>TransferFee.epoch = 0, maximumFee = 5, transferFeeBasisPoints = 30000\<rparr>\<rparr>
           \<lparr>EpochInfo.epoch = 1, slotsInEpoch = 432000, absoluteSlot = 500001\<rparr>) \<noteq> 10000
   \<and> getTransferAmountFee 1
        (Some \<lparr>transferFeeConfigAuthority = None, withdrawWithheldAuthority = None,
               withheldAmount = 0,
               olderTransferFee = \<lparr>TransferFee.epoch = 0, maximumFee = 5, transferFeeBasisPoints = 30000\<rparr>,
               newerTransferFee = \<lparr>TransferFee.epoch = 0, maximumFee = 5, transferFeeBasisPoints = 30000\<rparr>\<rparr>)
        \<lparr>EpochInfo.epoch = 1, slotsInEpoch = 432000, absoluteSlot = 500001\<rparr> True
      = Inr \<lparr>amount = 1, fee = Some 3, expirationTime = None\<rparr>
   \<and> (let bp = 30000; maxFee = 5;
            TAmount0 = ceilDiv (1 * 10000) (10000 - bp);
            TAmount = (if TAmount0 - 1 > maxFee then 1 + maxFee else TAmount0)
        in (TAmount, min (ceilDiv (TAmount * bp) 10000) maxFee)) = (0, 0)
   \<and> transferFeeBasisPoints
        (nowFeeConfig
           \<lparr>transferFeeConfigAuthority = None, withdrawWithheldAuthority = None,
               withheldAmount = 0,
               olderTransferFee = \<lparr>TransferFee.epoch = 0, maximumFee = 5, transferFeeBasisPoints = - 9007199254730992\<rparr>,
               newerTransferFee = \<lparr>TransferFee.epoch = 0, maximumFee = 5, transferFeeBasisPoints = - 9007199254730992\<rparr>\<rparr>
           \<lparr>EpochInfo.epoch = 1, slotsInEpoch = 432000, absoluteSlot = 500001\<rparr>) \<noteq> 10000
   \<and> getTransferAmountFee 1
        (Some \<lparr>transferFeeConfigAuthority = None, withdrawWithheldAuthority = None,
               withheldAmount = 0,
               olderTransferFee = \<lparr>TransferFee.epoch = 0, maximumFee = 5, transferFeeBasisPoints = - 9007199254730992\<rparr>,
               newerTransferFee = \<lparr>TransferFee.epoch = 0, maximumFee = 5, transferFeeBasisPoints = - 9007199254730992\<rparr>\<rparr>)
        \<lparr>EpochInfo.epoch = 1, slotsInEpoch = 432000, absoluteSlot = 500001\<rparr> True
      = Inl AssertionError"
proof -
  have hyp1: "(0::int) \<le> 1"
    by simp
  have hyp2: "transferFeeBasisPoints
        (nowFeeConfig
           \<lparr>transferFeeConfigAuthority = None, withdrawWithheldAuthority = None,
               withheldAmount = 0,
               olderTransferFee = \<lparr>TransferFee.epoch = 0, maximumFee = 5, transferFeeBasisPoints = 30000\<rparr>,
               newerTransferFee = \<lparr>TransferFee.epoch = 0, maximumFee = 5, transferFeeBasisPoints = 30000\<rparr>\<rparr>
           \<lparr>EpochInfo.epoch = 1, slotsInEpoch = 432000, absoluteSlot = 500001\<rparr>) \<noteq> 10000"
    by (simp add: same_tiers)
  have quotient: "BNDivCeil 10000 (- 20000) = Inr 1" "BNDivCeil 30000 10000 = Inr 3"
    by (simp_all add: BNDivCeil_def BN_divmod_def ZERO_def signed_divide_int_def
        signed_modulo_int_def)
  have expiry: "expirationTimeOf
           \<lparr>transferFeeConfigAuthority = None, withdrawWithheldAuthority = None,
               withheldAmount = 0,
               olderTransferFee = \<lparr>TransferFee.epoch = 0, maximumFee = 5, transferFeeBasisPoints = 30000\<rparr>,
               newerTransferFee = \<lparr>TransferFee.epoch = 0, maximumFee = 5, transferFeeBasisPoints = 30000\<rparr>\<rparr>
           \<lparr>EpochInfo.epoch = 1, slotsInEpoch = 432000, absoluteSlot = 500001\<rparr> = None"
    by (simp add: expirationTimeOf_def NumberOfBigint_exact)
  have code: "getTransferAmountFee 1
        (Some \<lparr>transferFeeConfigAuthority = None, withdrawWithheldAuthority = None,
               withheldAmount = 0,
               olderTransferFee = \<lparr>TransferFee.epoch = 0, maximumFee = 5, transferFeeBasisPoints = 30000\<rparr>,
               newerTransferFee = \<lparr>TransferFee.epoch = 0, maximumFee = 5, transferFeeBasisPoints = 30000\<rparr>\<rparr>)
        \<lparr>EpochInfo.epoch = 1, slotsInEpoch = 432000, absoluteSlot = 500001\<rparr> True
      = Inr \<lparr>amount = 1, fee = Some 3, expirationTime = None\<rparr>"
    by (simp add: getTransferAmountFee_def same_tiers expiry Let_def POINT_def newBN_def
        quotient)
  have rounded: "ceilDiv 10000 (- 20000) = 0" "ceilDiv 0 10000 = 0"
    by (simp_all add: ceilDiv_def)
  have stated: "(let bp = 30000; maxFee = 5;
            TAmount0 = ceilDiv (1 * 10000) (10000 - bp);
            TAmount = (if TAmount0 - 1 > maxFee then 1 + maxFee else TAmount0)
        in (TAmount, min (ceilDiv (TAmount * bp) 10000) maxFee)) = (0, 0::int)"
    by (simp add: Let_def rounded)
  have hyp3: "transferFeeBasisPoints
        (nowFeeConfig
           \<lparr>transferFeeConfigAuthority = None, withdrawWithheldAuthority = None,
               withheldAmount = 0,
               olderTransferFee = \<lparr>TransferFee.epoch = 0, maximumFee = 5, transferFeeBasisPoints = - 9007199254730992\<rparr>,
               newerTransferFee = \<lparr>TransferFee.epoch = 0, maximumFee = 5, transferFeeBasisPoints = - 9007199254730992\<rparr>\<rparr>
           \<lparr>EpochInfo.epoch = 1, slotsInEpoch = 432000, absoluteSlot = 500001\<rparr>) \<noteq> 10000"
    by (simp add: same_tiers)
  have thrown: "getTransferAmountFee 1
        (Some \<lparr>transferFeeConfigAuthority = None, withdrawWithheldAuthority = None,
               withheldAmount = 0,
               olderTransferFee = \<lparr>TransferFee.epoch = 0, maximumFee = 5, transferFeeBasisPoints = - 9007199254730992\<rparr>,
               newerTransferFee = \<lparr>TransferFee.epoch = 0, maximumFee = 5, transferFeeBasisPoints = - 9007199254730992\<rparr>\<rparr>)
        \<lparr>EpochInfo.epoch = 1, slotsInEpoch = 432000, absoluteSlot = 500001\<rparr> True
      = Inl AssertionError"
    by (simp add: getTransferAmountFee_def same_tiers Let_def POINT_def newBN_def)
  from hyp1 hyp2 code stated hyp3 thrown show ?thesis
    by (intro conjI)
qed

text \<open>
  C2, amended. For every non-negative amount, every present feeConfig whose selected tier
  has \<open>basisPoints < 10000\<close> and \<open>10000 - basisPoints < 2^53\<close>, and every epochInfo,
  \<^verbatim>\<open>getTransferAmountFee\<close> with \<^verbatim>\<open>addFee = true\<close> computes
  \<open>TAmount0 = ceilDiv(amount * 10000, 10000 - basisPoints)\<close>; the gross amount \<open>TAmount\<close> is
  \<open>amount + maximumFee\<close> if \<open>TAmount0 - amount > maximumFee\<close> and \<open>TAmount0\<close> otherwise; the
  fee is \<open>min(ceilDiv(TAmount * basisPoints, 10000), maximumFee)\<close>.
\<close>

theorem gross_up_below_full_rate:
  assumes "0 \<le> amt"
    and "transferFeeBasisPoints (nowFeeConfig cfg ei) < 10000"
    and "10000 - transferFeeBasisPoints (nowFeeConfig cfg ei) < 2 ^ 53"
  shows "\<exists>r. getTransferAmountFee amt (Some cfg) ei True = Inr r
           \<and> (let bp = transferFeeBasisPoints (nowFeeConfig cfg ei);
                    maxFee = maximumFee (nowFeeConfig cfg ei);
                    TAmount0 = ceilDiv (amt * 10000) (10000 - bp);
                    TAmount = (if TAmount0 - amt > maxFee then amt + maxFee else TAmount0)
                in amount r = TAmount
                   \<and> fee r = Some (min (ceilDiv (TAmount * bp) 10000) maxFee))"
  using assms(2,3) by (simp add: gross_up_eq Let_def)

theorem gross_up_below_full_rate_witness:
  "(0::int) \<le> 1000000
   \<and> transferFeeBasisPoints (nowFeeConfig sampleFeeConfig epochOne) < 10000
   \<and> 10000 - transferFeeBasisPoints (nowFeeConfig sampleFeeConfig epochOne) < 2 ^ 53
   \<and> (\<exists>r. getTransferAmountFee 1000000 (Some sampleFeeConfig) epochOne True = Inr r
          \<and> amount r = 1005000 \<and> fee r = Some 5000)"
proof -
  have sel: "nowFeeConfig sampleFeeConfig epochOne
               = \<lparr>TransferFee.epoch = 0, maximumFee = 5000, transferFeeBasisPoints = 100\<rparr>"
    by (rule sample_epochOne)
  have h1: "(0::int) \<le> 1000000" by simp
  have h2: "transferFeeBasisPoints (nowFeeConfig sampleFeeConfig epochOne) < 10000"
    by (simp add: sel)
  have h3: "10000 - transferFeeBasisPoints (nowFeeConfig sampleFeeConfig epochOne) < 2 ^ 53"
    by (simp add: sel)
  have c1: "ceilDiv 10000000000 9900 = 1010102"
    by (simp add: ceilDiv_def)
  have c2: "ceilDiv 100500000 10000 = 10050"
    by (simp add: ceilDiv_def)
  from gross_up_below_full_rate [OF h1 h2 h3] obtain r
    where r: "getTransferAmountFee 1000000 (Some sampleFeeConfig) epochOne True = Inr r"
      and v: "amount r = (if ceilDiv (1000000 * 10000) (10000 - 100) - 1000000 > 5000
                          then 1000000 + 5000 else ceilDiv (1000000 * 10000) (10000 - 100))"
             "fee r = Some (min (ceilDiv ((if ceilDiv (1000000 * 10000) (10000 - 100) - 1000000 > 5000
                          then 1000000 + 5000 else ceilDiv (1000000 * 10000) (10000 - 100)) * 100) 10000) 5000)"
    unfolding sel Let_def by auto
  have "amount r = 1005000" "fee r = Some 5000"
    using v by (simp_all add: c1 c2)
  with r h1 h2 h3 show ?thesis by blast
qed

text \<open>
  C3. Round trip: for every non-negative amount, every present feeConfig whose selected
  tier has basisPoints in \<open>[0, 10000]\<close> and every epochInfo, if \<^verbatim>\<open>addFee = true\<close> returns
  \<open>(TAmount, fee)\<close>, then \<^verbatim>\<open>addFee = false\<close> on \<open>TAmount\<close> under the same feeConfig and
  epochInfo returns the same fee.
\<close>

theorem round_trip:
  assumes "0 \<le> amt"
    and "0 \<le> transferFeeBasisPoints (nowFeeConfig cfg ei)"
    and "transferFeeBasisPoints (nowFeeConfig cfg ei) \<le> 10000"
  shows "\<exists>r r'. getTransferAmountFee amt (Some cfg) ei True = Inr r
            \<and> getTransferAmountFee (amount r) (Some cfg) ei False = Inr r'
            \<and> fee r' = fee r"
proof (cases "transferFeeBasisPoints (nowFeeConfig cfg ei) = 10000")
  case True
  have "ceilDiv ((amt + maximumFee (nowFeeConfig cfg ei)) * 10000) 10000
          = amt + maximumFee (nowFeeConfig cfg ei)"
    by (simp add: ceilDiv_def)
  then show ?thesis
    using True assms(1) by (simp add: gross_up_full_eq fee_only_eq)
next
  case False
  then have "transferFeeBasisPoints (nowFeeConfig cfg ei) < 10000"
    using assms(3) by simp
  moreover have "10000 - transferFeeBasisPoints (nowFeeConfig cfg ei) < 2 ^ 53"
    using assms(2) by simp
  moreover have "\<bar>transferFeeBasisPoints (nowFeeConfig cfg ei)\<bar> < 2 ^ 53"
    using assms(2,3) by simp
  ultimately show ?thesis
    by (simp add: gross_up_eq fee_only_eq Let_def)
qed

theorem round_trip_witness:
  "(0::int) \<le> 1000000
   \<and> 0 \<le> transferFeeBasisPoints (nowFeeConfig sampleFeeConfig epochOne)
   \<and> transferFeeBasisPoints (nowFeeConfig sampleFeeConfig epochOne) \<le> 10000
   \<and> (\<exists>r r'. getTransferAmountFee 1000000 (Some sampleFeeConfig) epochOne True = Inr r
          \<and> getTransferAmountFee (amount r) (Some sampleFeeConfig) epochOne False = Inr r'
          \<and> fee r' = fee r)"
proof -
  have h1: "(0::int) \<le> 1000000" by simp
  have h2: "0 \<le> transferFeeBasisPoints (nowFeeConfig sampleFeeConfig epochOne)"
    by (simp add: sample_epochOne)
  have h3: "transferFeeBasisPoints (nowFeeConfig sampleFeeConfig epochOne) \<le> 10000"
    by (simp add: sample_epochOne)
  from round_trip [OF h1 h2 h3] h1 h2 h3 show ?thesis
    by (intro conjI)
qed

text \<open>
  C9. Gross-up never under-delivers: for every non-negative amount, every present feeConfig
  whose selected tier has basisPoints in \<open>[0, 10000]\<close> and a non-negative maximumFee, and
  every epochInfo, the result \<open>(TAmount, fee)\<close> of \<^verbatim>\<open>addFee = true\<close> satisfies
  \<open>TAmount - fee \<ge> amount\<close>.
\<close>

theorem gross_up_never_under_delivers:
  assumes "0 \<le> amt"
    and "0 \<le> transferFeeBasisPoints (nowFeeConfig cfg ei)"
    and "transferFeeBasisPoints (nowFeeConfig cfg ei) \<le> 10000"
    and "0 \<le> maximumFee (nowFeeConfig cfg ei)"
  shows "\<exists>r f. getTransferAmountFee amt (Some cfg) ei True = Inr r
            \<and> fee r = Some f \<and> amount r - f \<ge> amt"
proof (cases "transferFeeBasisPoints (nowFeeConfig cfg ei) = 10000")
  case True
  then show ?thesis
    by (simp add: gross_up_full_eq)
next
  case False
  define bp where "bp = transferFeeBasisPoints (nowFeeConfig cfg ei)"
  define maxFee where "maxFee = maximumFee (nowFeeConfig cfg ei)"
  define T0 where "T0 = ceilDiv (amt * 10000) (10000 - bp)"
  define T where "T = (if T0 - amt > maxFee then amt + maxFee else T0)"
  define f where "f = min (ceilDiv (T * bp) 10000) maxFee"
  have lt: "bp < 10000"
    using False assms(3) by (simp add: bp_def)
  have safe: "10000 - bp < 2 ^ 53"
    using assms(2) by (simp add: bp_def)
  have res: "getTransferAmountFee amt (Some cfg) ei True
               = Inr \<lparr>amount = T, fee = Some f, expirationTime = expirationTimeOf cfg ei\<rparr>"
    using lt safe unfolding bp_def
    by (simp add: gross_up_eq Let_def f_def T_def T0_def bp_def maxFee_def)
  have "amt \<le> T - f"
  proof (cases "T0 - amt > maxFee")
    case True
    then have "T = amt + maxFee" by (simp add: T_def)
    moreover have "f \<le> maxFee" by (simp add: f_def)
    ultimately show ?thesis by simp
  next
    case False
    then have T: "T = T0" by (simp add: T_def)
    have "amt * 10000 \<le> (10000 - bp) * T0"
      unfolding T0_def using lt by (intro ceilDiv_ge) simp
    then have "T0 * bp \<le> 10000 * (T0 - amt)"
      by (simp add: algebra_simps)
    then have "ceilDiv (T0 * bp) 10000 \<le> T0 - amt"
      by (simp add: ceilDiv_le_iff)
    moreover have "f \<le> ceilDiv (T0 * bp) 10000"
      by (simp add: f_def T)
    ultimately show ?thesis
      using T by simp
  qed
  with res show ?thesis by simp
qed

theorem gross_up_never_under_delivers_witness:
  "(0::int) \<le> 1000000
   \<and> 0 \<le> transferFeeBasisPoints (nowFeeConfig sampleFeeConfig epochOne)
   \<and> transferFeeBasisPoints (nowFeeConfig sampleFeeConfig epochOne) \<le> 10000
   \<and> 0 \<le> maximumFee (nowFeeConfig sampleFeeConfig epochOne)
   \<and> (\<exists>r f. getTransferAmountFee 1000000 (Some sampleFeeConfig) epochOne True = Inr r
          \<and> fee r = Some f \<and> amount r - f \<ge> 1000000)"
proof -
  have h1: "(0::int) \<le> 1000000" by simp
  have h2: "0 \<le> transferFeeBasisPoints (nowFeeConfig sampleFeeConfig epochOne)"
    by (simp add: sample_epochOne)
  have h3: "transferFeeBasisPoints (nowFeeConfig sampleFeeConfig epochOne) \<le> 10000"
    by (simp add: sample_epochOne)
  have h4: "0 \<le> maximumFee (nowFeeConfig sampleFeeConfig epochOne)"
    by (simp add: sample_epochOne)
  from gross_up_never_under_delivers [OF h1 h2 h3 h4] h1 h2 h3 h4 show ?thesis
    by (intro conjI)
qed

section \<open>Tier selection and expiration\<close>

text \<open>
  C5, as stated for every present feeConfig and every epochInfo, fails in three ways.

  There is an error condition: with \<open>2^53\<close> basis points and \<^verbatim>\<open>addFee = true\<close> the code
  reaches \<^verbatim>\<open>new BN(basisPoints)\<close>, whose assertion fails, and throws.

  The selection compares with \<^verbatim>\<open>Number(newerTransferFee.epoch)\<close>, which rounds: for the
  newer epoch \<open>2^53 + 1\<close> and the current epoch \<open>2^53\<close> the claim's condition
  \<open>epoch < newerEpoch\<close> holds, yet \<^verbatim>\<open>Number\<close> gives \<open>2^53\<close>, the code selects the newer tier
  (fee 7, where the older tier gives 1000) and returns no expiration time.

  The expiration time is computed in doubles: for the newer epoch 1, one slot per epoch and
  slot 0 the code returns the double nearest to \<open>0.4\<close>, which is not the rational
  \<open>((1 * 1) - 0) * 400 / 1000\<close>.
\<close>

theorem tier_selection_counterexample:
  "getTransferAmountFee 1
        (Some \<lparr>transferFeeConfigAuthority = None, withdrawWithheldAuthority = None,
               withheldAmount = 0,
               olderTransferFee = \<lparr>TransferFee.epoch = 0, maximumFee = 5, transferFeeBasisPoints = 9007199254740992\<rparr>,
               newerTransferFee = \<lparr>TransferFee.epoch = 0, maximumFee = 5, transferFeeBasisPoints = 9007199254740992\<rparr>\<rparr>)
        \<lparr>EpochInfo.epoch = 1, slotsInEpoch = 432000, absoluteSlot = 500001\<rparr> True
      = Inl AssertionError
   \<and> EpochInfo.epoch \<lparr>EpochInfo.epoch = 9007199254740992, slotsInEpoch = 432000, absoluteSlot = 0\<rparr>
        < TransferFee.epoch (newerTransferFee
            \<lparr>transferFeeConfigAuthority = None, withdrawWithheldAuthority = None,
               withheldAmount = 0,
               olderTransferFee = \<lparr>TransferFee.epoch = 0, maximumFee = 5000, transferFeeBasisPoints = 100\<rparr>,
               newerTransferFee = \<lparr>TransferFee.epoch = 9007199254740993, maximumFee = 7, transferFeeBasisPoints = 200\<rparr>\<rparr>)
   \<and> getTransferAmountFee 100000
        (Some \<lparr>transferFeeConfigAuthority = None, withdrawWithheldAuthority = None,
               withheldAmount = 0,
               olderTransferFee = \<lparr>TransferFee.epoch = 0, maximumFee = 5000, transferFeeBasisPoints = 100\<rparr>,
               newerTransferFee = \<lparr>TransferFee.epoch = 9007199254740993, maximumFee = 7, transferFeeBasisPoints = 200\<rparr>\<rparr>)
        \<lparr>EpochInfo.epoch = 9007199254740992, slotsInEpoch = 432000, absoluteSlot = 0\<rparr> False
      = Inr \<lparr>amount = 100000, fee = Some 7, expirationTime = None\<rparr>
   \<and> min (ceilDiv (100000 * 100) 10000) 5000 = (1000::int)
   \<and> getTransferAmountFee 100000
        (Some \<lparr>transferFeeConfigAuthority = None, withdrawWithheldAuthority = None,
               withheldAmount = 0,
               olderTransferFee = \<lparr>TransferFee.epoch = 0, maximumFee = 5000, transferFeeBasisPoints = 100\<rparr>,
               newerTransferFee = \<lparr>TransferFee.epoch = 1, maximumFee = 7, transferFeeBasisPoints = 200\<rparr>\<rparr>)
        \<lparr>EpochInfo.epoch = 0, slotsInEpoch = 1, absoluteSlot = 0\<rparr> False
      = Inr \<lparr>amount = 100000, fee = Some 1000,
             expirationTime = Some (Finite (3602879701896397 / 9007199254740992))\<rparr>
   \<and> (3602879701896397 / 9007199254740992 :: rat) \<noteq> ((1 * 1 - 0) * 400) / 1000"
proof -
  obtain t0 where t0: "BNDivCeil 10000 (- 9007199254730992) = Inr t0"
    by (auto simp add: BNDivCeil_def BN_divmod_def)
  have a: "getTransferAmountFee 1
        (Some \<lparr>transferFeeConfigAuthority = None, withdrawWithheldAuthority = None,
               withheldAmount = 0,
               olderTransferFee = \<lparr>TransferFee.epoch = 0, maximumFee = 5, transferFeeBasisPoints = 9007199254740992\<rparr>,
               newerTransferFee = \<lparr>TransferFee.epoch = 0, maximumFee = 5, transferFeeBasisPoints = 9007199254740992\<rparr>\<rparr>)
        \<lparr>EpochInfo.epoch = 1, slotsInEpoch = 432000, absoluteSlot = 500001\<rparr> True
      = Inl AssertionError"
    by (simp add: getTransferAmountFee_def same_tiers Let_def POINT_def newBN_def t0)
  have b1: "EpochInfo.epoch \<lparr>EpochInfo.epoch = 9007199254740992, slotsInEpoch = 432000, absoluteSlot = 0\<rparr>
        < TransferFee.epoch (newerTransferFee
            \<lparr>transferFeeConfigAuthority = None, withdrawWithheldAuthority = None,
               withheldAmount = 0,
               olderTransferFee = \<lparr>TransferFee.epoch = 0, maximumFee = 5000, transferFeeBasisPoints = 100\<rparr>,
               newerTransferFee = \<lparr>TransferFee.epoch = 9007199254740993, maximumFee = 7, transferFeeBasisPoints = 200\<rparr>\<rparr>)"
    by simp
  have selB: "nowFeeConfig
        \<lparr>transferFeeConfigAuthority = None, withdrawWithheldAuthority = None,
               withheldAmount = 0,
               olderTransferFee = \<lparr>TransferFee.epoch = 0, maximumFee = 5000, transferFeeBasisPoints = 100\<rparr>,
               newerTransferFee = \<lparr>TransferFee.epoch = 9007199254740993, maximumFee = 7, transferFeeBasisPoints = 200\<rparr>\<rparr>
        \<lparr>EpochInfo.epoch = 9007199254740992, slotsInEpoch = 432000, absoluteSlot = 0\<rparr>
      = \<lparr>TransferFee.epoch = 9007199254740993, maximumFee = 7, transferFeeBasisPoints = 200\<rparr>"
    by (simp add: nowFeeConfig_def NumberOfBigint_def toDouble_two_to_53_plus_1)
  have expB: "expirationTimeOf
        \<lparr>transferFeeConfigAuthority = None, withdrawWithheldAuthority = None,
               withheldAmount = 0,
               olderTransferFee = \<lparr>TransferFee.epoch = 0, maximumFee = 5000, transferFeeBasisPoints = 100\<rparr>,
               newerTransferFee = \<lparr>TransferFee.epoch = 9007199254740993, maximumFee = 7, transferFeeBasisPoints = 200\<rparr>\<rparr>
        \<lparr>EpochInfo.epoch = 9007199254740992, slotsInEpoch = 432000, absoluteSlot = 0\<rparr> = None"
    by (simp add: expirationTimeOf_def NumberOfBigint_def toDouble_two_to_53_plus_1)
  have qB: "BNDivCeil 20000000 10000 = Inr 2000"
    by (simp add: BNDivCeil_pos ceilDiv_def)
  have b2: "getTransferAmountFee 100000
        (Some \<lparr>transferFeeConfigAuthority = None, withdrawWithheldAuthority = None,
               withheldAmount = 0,
               olderTransferFee = \<lparr>TransferFee.epoch = 0, maximumFee = 5000, transferFeeBasisPoints = 100\<rparr>,
               newerTransferFee = \<lparr>TransferFee.epoch = 9007199254740993, maximumFee = 7, transferFeeBasisPoints = 200\<rparr>\<rparr>)
        \<lparr>EpochInfo.epoch = 9007199254740992, slotsInEpoch = 432000, absoluteSlot = 0\<rparr> False
      = Inr \<lparr>amount = 100000, fee = Some 7, expirationTime = None\<rparr>"
    by (simp add: getTransferAmountFee_def selB expB Let_def POINT_def newBN_def qB)
  have b3: "min (ceilDiv (100000 * 100) 10000) 5000 = (1000::int)"
    by (simp add: ceilDiv_def)
  have selC: "nowFeeConfig
        \<lparr>transferFeeConfigAuthority = None, withdrawWithheldAuthority = None,
               withheldAmount = 0,
               olderTransferFee = \<lparr>TransferFee.epoch = 0, maximumFee = 5000, transferFeeBasisPoints = 100\<rparr>,
               newerTransferFee = \<lparr>TransferFee.epoch = 1, maximumFee = 7, transferFeeBasisPoints = 200\<rparr>\<rparr>
        \<lparr>EpochInfo.epoch = 0, slotsInEpoch = 1, absoluteSlot = 0\<rparr>
      = \<lparr>TransferFee.epoch = 0, maximumFee = 5000, transferFeeBasisPoints = 100\<rparr>"
    by (simp add: nowFeeConfig_exact)
  have expC: "expirationTimeOf
        \<lparr>transferFeeConfigAuthority = None, withdrawWithheldAuthority = None,
               withheldAmount = 0,
               olderTransferFee = \<lparr>TransferFee.epoch = 0, maximumFee = 5000, transferFeeBasisPoints = 100\<rparr>,
               newerTransferFee = \<lparr>TransferFee.epoch = 1, maximumFee = 7, transferFeeBasisPoints = 200\<rparr>\<rparr>
        \<lparr>EpochInfo.epoch = 0, slotsInEpoch = 1, absoluteSlot = 0\<rparr> = Some (Finite (3602879701896397 / 9007199254740992))"
    by (simp add: expirationTimeOf_exact toDouble_one toDouble_numeral toDouble_two_fifths)
  have qC: "BNDivCeil 10000000 10000 = Inr 1000"
    by (simp add: BNDivCeil_pos ceilDiv_def)
  have c1: "getTransferAmountFee 100000
        (Some \<lparr>transferFeeConfigAuthority = None, withdrawWithheldAuthority = None,
               withheldAmount = 0,
               olderTransferFee = \<lparr>TransferFee.epoch = 0, maximumFee = 5000, transferFeeBasisPoints = 100\<rparr>,
               newerTransferFee = \<lparr>TransferFee.epoch = 1, maximumFee = 7, transferFeeBasisPoints = 200\<rparr>\<rparr>)
        \<lparr>EpochInfo.epoch = 0, slotsInEpoch = 1, absoluteSlot = 0\<rparr> False
      = Inr \<lparr>amount = 100000, fee = Some 1000,
             expirationTime = Some (Finite (3602879701896397 / 9007199254740992))\<rparr>"
    by (simp add: getTransferAmountFee_def selC expC Let_def POINT_def newBN_def qC)
  have c2: "(3602879701896397 / 9007199254740992 :: rat) \<noteq> ((1 * 1 - 0) * 400) / 1000"
    by simp
  from a b1 b2 b3 c1 c2 show ?thesis
    by (intro conjI)
qed

text \<open>
  C5, amended. For every present feeConfig whose newer tier has an epoch below \<open>2^53\<close> in
  absolute value, and every epochInfo: the older tier is selected if
  \<open>epochInfo.epoch < feeConfig.newerTransferFee.epoch\<close> and the newer tier otherwise. If
  \<^verbatim>\<open>new BN\<close> accepts every number the call hands to it (with \<^verbatim>\<open>addFee = false\<close>: the
  selected tier's basisPoints \<open>bp\<close> has \<open>|bp| < 2^53\<close>; with \<^verbatim>\<open>addFee = true\<close>:
  \<open>bp = 10000\<close>, or \<open>|bp| < 2^53\<close> and \<open>|10000 - bp| < 2^53\<close>),
  \<^verbatim>\<open>getTransferAmountFee\<close> raises no error and returns
  \<^item> the expiration time \<open>((newerEpoch * slotsInEpoch) - absoluteSlot) * 400 / 1000\<close>, each
    operation rounded to the nearest double, when the older tier is selected, and an absent
    expiration time when the newer tier is;
  \<^item> the amount and the fee computed from the basisPoints and maximumFee of the selected
    tier: with \<^verbatim>\<open>addFee = false\<close> the amount unchanged and the fee
    \<open>min(BNDivCeil(amount * bp, 10000), maximumFee)\<close>; with \<^verbatim>\<open>addFee = true\<close> and
    \<open>bp = 10000\<close> the amount \<open>amount + maximumFee\<close> and the fee \<open>maximumFee\<close>; with
    \<^verbatim>\<open>addFee = true\<close> and any other \<open>bp\<close> the amount \<open>TAmount\<close>, which is
    \<open>amount + maximumFee\<close> if \<open>BNDivCeil(amount * 10000, 10000 - bp) - amount > maximumFee\<close>
    and that quotient otherwise, and the fee \<open>min(BNDivCeil(TAmount * bp, 10000), maximumFee)\<close>.
\<close>

theorem tier_selection_and_expiration:
  assumes "\<bar>TransferFee.epoch (newerTransferFee cfg)\<bar> < 2 ^ 53"
  shows "let older_selected = EpochInfo.epoch ei < TransferFee.epoch (newerTransferFee cfg);
             tier = (if older_selected then olderTransferFee cfg else newerTransferFee cfg);
             bp = transferFeeBasisPoints tier;
             maxFee = maximumFee tier;
             accepted = (if addFee
                         then bp = 10000 \<or> (\<bar>bp\<bar> < 2 ^ 53 \<and> \<bar>10000 - bp\<bar> < 2 ^ 53)
                         else \<bar>bp\<bar> < 2 ^ 53)
         in accepted \<longrightarrow>
            (\<exists>r. getTransferAmountFee amt (Some cfg) ei addFee = Inr r
               \<and> expirationTime r =
                   (if older_selected
                    then Some (number_divide
                                (number_times
                                   (number_minus
                                      (number_times
                                         (Finite (of_int (TransferFee.epoch (newerTransferFee cfg))))
                                         (of_int (slotsInEpoch ei)))
                                      (of_int (absoluteSlot ei)))
                                   400)
                                1000)
                    else None)
               \<and> (\<not> addFee \<longrightarrow>
                     amount r = amt
                     \<and> (\<exists>q. BNDivCeil (amt * bp) 10000 = Inr q \<and> fee r = Some (min q maxFee)))
               \<and> (addFee \<and> bp = 10000 \<longrightarrow>
                     amount r = amt + maxFee \<and> fee r = Some maxFee)
               \<and> (addFee \<and> bp \<noteq> 10000 \<longrightarrow>
                     (\<exists>t0 q. BNDivCeil (amt * 10000) (10000 - bp) = Inr t0
                        \<and> amount r = (if t0 - amt > maxFee then amt + maxFee else t0)
                        \<and> BNDivCeil (amount r * bp) 10000 = Inr q
                        \<and> fee r = Some (min q maxFee))))"
proof -
  define tier where "tier = nowFeeConfig cfg ei"
  have sel: "(if EpochInfo.epoch ei < TransferFee.epoch (newerTransferFee cfg)
              then olderTransferFee cfg else newerTransferFee cfg) = tier"
    unfolding tier_def using assms by (simp add: nowFeeConfig_exact)
  have ex: "(if EpochInfo.epoch ei < TransferFee.epoch (newerTransferFee cfg)
             then Some (number_divide
                         (number_times
                            (number_minus
                               (number_times
                                  (Finite (of_int (TransferFee.epoch (newerTransferFee cfg))))
                                  (of_int (slotsInEpoch ei)))
                               (of_int (absoluteSlot ei)))
                            400)
                         1000)
             else None) = expirationTimeOf cfg ei"
    using assms by (simp add: expirationTimeOf_exact)
  have main: "\<exists>r. getTransferAmountFee amt (Some cfg) ei addFee = Inr r
               \<and> expirationTime r = expirationTimeOf cfg ei
               \<and> (\<not> addFee \<longrightarrow>
                     amount r = amt
                     \<and> (\<exists>q. BNDivCeil (amt * transferFeeBasisPoints tier) 10000 = Inr q
                            \<and> fee r = Some (min q (maximumFee tier))))
               \<and> (addFee \<and> transferFeeBasisPoints tier = 10000 \<longrightarrow>
                     amount r = amt + maximumFee tier \<and> fee r = Some (maximumFee tier))
               \<and> (addFee \<and> transferFeeBasisPoints tier \<noteq> 10000 \<longrightarrow>
                     (\<exists>t0 q. BNDivCeil (amt * 10000) (10000 - transferFeeBasisPoints tier) = Inr t0
                        \<and> amount r = (if t0 - amt > maximumFee tier
                                      then amt + maximumFee tier else t0)
                        \<and> BNDivCeil (amount r * transferFeeBasisPoints tier) 10000 = Inr q
                        \<and> fee r = Some (min q (maximumFee tier))))"
    if accepted: "if addFee
                  then transferFeeBasisPoints tier = 10000
                       \<or> (\<bar>transferFeeBasisPoints tier\<bar> < 2 ^ 53
                          \<and> \<bar>10000 - transferFeeBasisPoints tier\<bar> < 2 ^ 53)
                  else \<bar>transferFeeBasisPoints tier\<bar> < 2 ^ 53"
  proof (cases addFee)
    case False
    have safe: "\<bar>transferFeeBasisPoints tier\<bar> < 2 ^ 53"
      using accepted False by simp
    have "BNDivCeil (amt * transferFeeBasisPoints tier) 10000
            = Inr (ceilDiv (amt * transferFeeBasisPoints tier) 10000)"
      by (rule BNDivCeil_pos) simp
    then show ?thesis
      using False safe unfolding tier_def by (simp add: fee_only_eq)
  next
    case True
    show ?thesis
    proof (cases "transferFeeBasisPoints tier = 10000")
      case full: True
      then show ?thesis
        using True unfolding tier_def by (simp add: gross_up_full_eq)
    next
      case False
      have safe: "\<bar>transferFeeBasisPoints tier\<bar> < 2 ^ 53"
        "\<bar>10000 - transferFeeBasisPoints tier\<bar> < 2 ^ 53"
        using accepted True False by simp_all
      from gross_up_code [OF False [unfolded tier_def] safe [unfolded tier_def], of amt]
      show ?thesis
        using True False unfolding tier_def by auto
    qed
  qed
  show ?thesis
    unfolding Let_def sel ex using main by blast
qed

theorem tier_selection_and_expiration_witness:
  "\<bar>TransferFee.epoch (newerTransferFee sampleFeeConfig)\<bar> < 2 ^ 53
   \<and> \<bar>transferFeeBasisPoints (olderTransferFee sampleFeeConfig)\<bar> < 2 ^ 53
   \<and> \<bar>10000 - transferFeeBasisPoints (olderTransferFee sampleFeeConfig)\<bar> < 2 ^ 53
   \<and> (\<exists>r. getTransferAmountFee 100000 (Some sampleFeeConfig) epochOne False = Inr r
          \<and> amount r = 100000 \<and> fee r = Some 1000
          \<and> expirationTime r = Some (toDouble (1591998 / 5)))
   \<and> (\<exists>r. getTransferAmountFee 1000000 (Some sampleFeeConfig) epochThree True = Inr r
          \<and> amount r = 1000007 \<and> fee r = Some 7
          \<and> expirationTime r = None)"
proof -
  have h: "\<bar>TransferFee.epoch (newerTransferFee sampleFeeConfig)\<bar> < 2 ^ 53"
    by simp
  have h2: "\<bar>transferFeeBasisPoints (olderTransferFee sampleFeeConfig)\<bar> < 2 ^ 53"
    "\<bar>10000 - transferFeeBasisPoints (olderTransferFee sampleFeeConfig)\<bar> < 2 ^ 53"
    by simp_all
  have q: "BNDivCeil 10000000 10000 = Inr 1000"
    by (simp add: BNDivCeil_pos ceilDiv_def)
  have e: "number_divide
             (number_times (number_minus (number_times (Finite (of_int 3)) (of_int 432000))
                (of_int 500001)) 400) 1000
           = toDouble (1591998 / 5)"
    using expiration_in_safe_range [of 3 432000 500001] by simp
  from tier_selection_and_expiration [OF h, of epochOne False 100000]
  obtain r where r: "getTransferAmountFee 100000 (Some sampleFeeConfig) epochOne False = Inr r"
    "amount r = 100000" "fee r = Some 1000"
    "expirationTime r = Some (toDouble (1591998 / 5))"
    using e by (auto simp add: Let_def q)
  from tier_selection_and_expiration [OF h, of epochThree True 1000000]
  obtain r' where r': "getTransferAmountFee 1000000 (Some sampleFeeConfig) epochThree True = Inr r'"
    "amount r' = 1000007" "fee r' = Some 7" "expirationTime r' = None"
    by (auto simp add: Let_def)
  from h h2 r r' show ?thesis by blast
qed

section \<open>Combining expiration times\<close>

text \<open>
  C8. \<^verbatim>\<open>minExpirationTime(a, b)\<close> returns the other argument when one is absent, absent
  when both are absent, and the smaller of the two when both are present; in particular
  \<^verbatim>\<open>minExpirationTime(undefined, undefined) = undefined\<close>,
  \<^verbatim>\<open>minExpirationTime(5, undefined) = 5\<close> and \<^verbatim>\<open>minExpirationTime(5, 3) = 3\<close>.
\<close>

theorem minExpirationTime_cases:
  "minExpirationTime None b = b
   \<and> minExpirationTime a None = a
   \<and> minExpirationTime None None = None
   \<and> minExpirationTime (Some x) (Some y) = Some (min x y)
   \<and> minExpirationTime (Some 5) None = Some 5
   \<and> minExpirationTime (Some 5) (Some 3) = Some 3"
  by (simp add: minExpirationTime_def split: option.split)

section \<open>Mints fetched by this module carry no fee configuration\<close>

text \<open>The loop keeps the property that every entry of \<^verbatim>\<open>mintK\<close> has an absent
  \<^verbatim>\<open>feeConfig\<close>.\<close>

lemma loop_feeConfig_absent:
  assumes "fetchMultipleMintInfos_loop mintK infos = Inr m"
    and "\<And>k v. mintK k = Some v \<Longrightarrow> feeConfig v = None"
    and "m k = Some v"
  shows "feeConfig v = None"
  using assms
proof (induction infos arbitrary: mintK)
  case Nil
  then show ?case by simp
next
  case (Cons i rest)
  from Cons.prems(1) obtain t where t: "unpackMint (fst i) (snd i) (map_option owner (snd i)) = Inr t"
    and rest: "fetchMultipleMintInfos_loop
            (mintK(fst i \<mapsto>
               \<lparr>mintAuthority = mintAuthority t, supply' = supply' t, decimals = decimals t,
                isInitialized = isInitialized t, freezeAuthority = freezeAuthority t,
                feeConfig = (case getTransferFeeConfig t of None \<Rightarrow> None | Some c \<Rightarrow> Some c)\<rparr>))
            rest = Inr m"
    by (auto split: sum.splits)
  show ?case
  proof (rule Cons.IH [OF rest _ Cons.prems(3)])
    fix k' v'
    assume "(mintK(fst i \<mapsto>
               \<lparr>mintAuthority = mintAuthority t, supply' = supply' t, decimals = decimals t,
                isInitialized = isInitialized t, freezeAuthority = freezeAuthority t,
                feeConfig = (case getTransferFeeConfig t of None \<Rightarrow> None | Some c \<Rightarrow> Some c)\<rparr>)) k'
              = Some v'"
    then show "feeConfig v' = None"
      using Cons.prems(2) by (auto simp add: getTransferFeeConfig_def split: if_splits)
  qed
qed

text \<open>An account the ledger does not have makes \<^verbatim>\<open>unpackMint\<close> throw, and with it the
  whole fetch.\<close>

lemma fetchMultipleMintInfos_absent_account:
  "fetchMultipleMintInfos (\<lambda>keys. Inr (map (\<lambda>k. (k, None)) keys)) [''MintA''] = Inl TypeError"
  by (simp add: fetchMultipleMintInfos_def unpackMint_def)

text \<open>
  C10. \<^verbatim>\<open>getTransferFeeConfig\<close> returns \<^verbatim>\<open>null\<close> for every mint; every entry of a map
  returned by \<^verbatim>\<open>fetchMultipleMintInfos\<close> has \<^verbatim>\<open>feeConfig = undefined\<close>; and
  \<^verbatim>\<open>getTransferAmountFee\<close> on such an entry's \<^verbatim>\<open>feeConfig\<close> returns the amount
  unchanged with fee and expiration time absent.
\<close>

theorem fetched_mints_have_no_fee_config:
  "getTransferFeeConfig mint = None
   \<and> (\<forall>m k v. fetchMultipleMintInfos connection mints = Inr m \<and> m k = Some v \<longrightarrow>
          feeConfig v = None
          \<and> getTransferAmountFee amt (feeConfig v) ei addFee
              = Inr \<lparr>amount = amt, fee = None, expirationTime = None\<rparr>)"
proof -
  have "feeConfig v = None"
    if "fetchMultipleMintInfos connection mints = Inr m" and "m k = Some v" for m k v
  proof (cases "length mints = 0")
    case True
    with that show ?thesis by (auto simp add: fetchMultipleMintInfos_def)
  next
    case False
    with that(1) obtain infos where loop: "fetchMultipleMintInfos_loop Map.empty infos = Inr m"
      by (auto simp add: fetchMultipleMintInfos_def split: sum.splits)
    show ?thesis
      by (rule loop_feeConfig_absent [OF loop _ that(2)]) simp
  qed
  then show ?thesis
    by (auto simp add: getTransferFeeConfig_def getTransferAmountFee_def)
qed

theorem fetched_mints_have_no_fee_config_witness:
  "\<exists>m v. fetchMultipleMintInfos
            (\<lambda>keys. Inr (map (\<lambda>k. (k, Some \<lparr>data = [], owner = ''TokenProgram''\<rparr>)) keys))
            [''MintA''] = Inr m
        \<and> m ''MintA'' = Some v
        \<and> feeConfig v = None
        \<and> getTransferAmountFee 5 (feeConfig v) epochOne True
            = Inr \<lparr>amount = 5, fee = None, expirationTime = None\<rparr>"
proof -
  have "\<exists>m v. fetchMultipleMintInfos
            (\<lambda>keys. Inr (map (\<lambda>k. (k, Some \<lparr>data = [], owner = ''TokenProgram''\<rparr>)) keys))
            [''MintA''] = Inr m
        \<and> m ''MintA'' = Some v"
    by (simp add: fetchMultipleMintInfos_def unpackMint_def)
  then obtain m v where a: "fetchMultipleMintInfos
            (\<lambda>keys. Inr (map (\<lambda>k. (k, Some \<lparr>data = [], owner = ''TokenProgram''\<rparr>)) keys))
            [''MintA''] = Inr m"
    and b: "m ''MintA'' = Some v"
    by blast
  from fetched_mints_have_no_fee_config
         [THEN conjunct2, rule_format, OF conjI [OF a b], of 5 epochOne True] a b
  show ?thesis by blast
qed

end
